theory Spec2Isabelle
  imports Complex_Main "HOL-Library.Sublist" "HOL-Library.AList"
begin

section \<open>Values, dictionaries and exceptions\<close>

text \<open>
  The three transforms read decoded JSON documents. A Python number is either an
  \<open>int\<close> (unbounded) or a \<open>float\<close>. A float is taken as the real number it stands
  for and the arithmetic on floats is exact, so rounding error is outside this
  development; what is kept of binary floating point is that a float is finite: the
  conversion of an \<open>int\<close> and the division of two \<open>int\<close>s raise when the result is
  too large. A string is a list of characters, a character being the code point of the
  same number, from 0 to 255; the character classes below are Python's on this range,
  and text with code points beyond it is outside this development.
\<close>

datatype pynum = PInt int | PFloat real

datatype json =
    JNull
  | JBool bool
  | JNum pynum
  | JStr string
  | JArr "json list"
  | JObj "(string \<times> json) list"

text \<open>A dict keeps its keys in insertion order; a decoded JSON object has distinct keys.\<close>

type_synonym dict = "(string \<times> json) list"

datatype pyexn = KeyError | IndexError | ValueError | AttributeError | TypeError
  | OverflowError | ZeroDivisionError

fun num_val :: "pynum \<Rightarrow> real" where
  "num_val (PInt i) = of_int i"
| "num_val (PFloat r) = r"

text \<open>\<^verbatim>\<open>d.get(k, default)\<close> and \<^verbatim>\<open>d.get(k)\<close> (whose default is \<^verbatim>\<open>None\<close>).\<close>

definition dict_get :: "dict \<Rightarrow> string \<Rightarrow> json \<Rightarrow> json" where
  "dict_get d k dflt = (case map_of d k of Some v \<Rightarrow> v | None \<Rightarrow> dflt)"

text \<open>\<^verbatim>\<open>d[k] = v\<close>: an existing key keeps its position, a new key goes last.\<close>

definition dict_set :: "dict \<Rightarrow> string \<Rightarrow> json \<Rightarrow> dict" where
  "dict_set d k v = AList.update k v d"

text \<open>
  The largest float is \<open>2 ^ 1024 - 2 ^ 971\<close>. A conversion rounds to the nearest
  float, a tie going to the even one, so a number converts if and only if its absolute
  value is below the midpoint \<open>2 ^ 1024 - 2 ^ 970\<close>; from there on the conversion
  raises \<^verbatim>\<open>OverflowError\<close>.
\<close>

definition float_limit :: real where
  "float_limit = 2 ^ 1024 - 2 ^ 970"

text \<open>An \<open>int\<close> that meets a float in arithmetic is converted first.\<close>

definition int_to_float :: "int \<Rightarrow> pyexn + real" where
  "int_to_float i = (if \<bar>of_int i\<bar> < float_limit then Inr (of_int i) else Inl OverflowError)"

text \<open>\<^verbatim>\<open>a / b\<close> on two \<open>int\<close>s: the quotient, a float.\<close>

definition int_true_div :: "int \<Rightarrow> int \<Rightarrow> pyexn + real" where
  "int_true_div a b =
     (if b = 0 then Inl ZeroDivisionError
      else if \<bar>of_int a / of_int b\<bar> < float_limit then Inr (of_int a / of_int b)
      else Inl OverflowError)"

section \<open>String operations of the Python runtime\<close>

text \<open>\<^verbatim>\<open>str.isspace\<close> on one character: tab, newline, vertical tab, form feed,
  carriage return, the four separators 28 to 31, space, next line (133) and the
  no-break space (160). \<^verbatim>\<open>str.split()\<close> cuts at these.\<close>

definition py_isspace :: "char \<Rightarrow> bool" where
  "py_isspace c = (let n = of_char c :: nat in
     (9 \<le> n \<and> n \<le> 13) \<or> (28 \<le> n \<and> n \<le> 32) \<or> n = 133 \<or> n = 160)"

text \<open>The white space that \<^verbatim>\<open>int()\<close> drops around a literal: the same without the
  four separators 28 to 31.\<close>

definition int_isspace :: "char \<Rightarrow> bool" where
  "int_isspace c = (let n = of_char c :: nat in
     (9 \<le> n \<and> n \<le> 13) \<or> n = 32 \<or> n = 133 \<or> n = 160)"

definition py_isdigit :: "char \<Rightarrow> bool" where
  "py_isdigit c = (let n = of_char c :: nat in 48 \<le> n \<and> n \<le> 57)"

definition digit_val :: "char \<Rightarrow> nat" where
  "digit_val c = of_char c - 48"

definition int_strip :: "string \<Rightarrow> string" where
  "int_strip s = rev (dropWhile int_isspace (rev (dropWhile int_isspace s)))"

text \<open>\<^verbatim>\<open>s.split(sep)\<close> for a non-empty separator: cut at each occurrence of \<open>sep\<close>,
  found from left to right without overlap. \<open>cur\<close> is the piece read so far.\<close>

fun split_from :: "string \<Rightarrow> string \<Rightarrow> string \<Rightarrow> string list" where
  "split_from sep cur [] = [cur]"
| "split_from sep cur (c # cs) =
     (if sep \<noteq> [] \<and> prefix sep (c # cs)
      then cur # split_from sep [] (drop (length sep) (c # cs))
      else split_from sep (cur @ [c]) cs)"

definition py_split :: "string \<Rightarrow> string \<Rightarrow> string list" where
  "py_split s sep = split_from sep [] s"

text \<open>The digits of a decimal literal as \<^verbatim>\<open>int()\<close> accepts them: one or more digits,
  with single underscores allowed between digits. \<open>prev\<close> says that the previous
  character was a digit.\<close>

fun int_digits :: "bool \<Rightarrow> nat \<Rightarrow> string \<Rightarrow> nat option" where
  "int_digits prev acc [] = (if prev then Some acc else None)"
| "int_digits prev acc (c # cs) =
     (if py_isdigit c then int_digits True (10 * acc + digit_val c) cs
      else if c = CHR ''_'' \<and> prev then int_digits False acc cs
      else None)"

text \<open>A literal of more than 4300 digits is refused (the interpreter's default limit
  on the conversion of a string to an \<open>int\<close>); underscores do not count.\<close>

definition int_literal :: "string \<Rightarrow> nat option" where
  "int_literal cs =
     (if length (filter py_isdigit cs) > 4300 then None else int_digits False 0 cs)"

text \<open>\<^verbatim>\<open>int(s)\<close> on a string: surrounding white space is dropped, one sign is allowed,
  anything else raises \<^verbatim>\<open>ValueError\<close>.\<close>

definition py_int :: "string \<Rightarrow> pyexn + int" where
  "py_int s =
     (case int_strip s of
        [] \<Rightarrow> Inl ValueError
      | c # cs \<Rightarrow>
          if c = CHR ''-'' then
            (case int_literal cs of None \<Rightarrow> Inl ValueError | Some n \<Rightarrow> Inr (- int n))
          else if c = CHR ''+'' then
            (case int_literal cs of None \<Rightarrow> Inl ValueError | Some n \<Rightarrow> Inr (int n))
          else
            (case int_literal (c # cs) of None \<Rightarrow> Inl ValueError | Some n \<Rightarrow> Inr (int n)))"

text \<open>\<^verbatim>\<open>parts[i]\<close> on a list raises \<^verbatim>\<open>IndexError\<close> out of range.\<close>

definition py_index :: "'a list \<Rightarrow> nat \<Rightarrow> pyexn + 'a" where
  "py_index xs i = (if i < length xs then Inr (xs ! i) else Inl IndexError)"

section \<open>Feature engineering\<close>

definition mean :: "real list \<Rightarrow> real" where
  "mean xs = sum_list xs / real (length xs)"

definition clip :: "real \<Rightarrow> real \<Rightarrow> real \<Rightarrow> real" where
  "clip x lo hi = min (max x lo) hi"

text \<open>
  The two integers of a match's score, as both loops read them:
  \<^verbatim>\<open>score = match.get('score', '0 - 0'); parts = score.split(' - ')\<close>, then
  \<^verbatim>\<open>int(parts[0])\<close> and \<^verbatim>\<open>int(parts[1])\<close>, in this order. A score that is not a string
  has no \<^verbatim>\<open>split\<close>.
\<close>

definition score_parts :: "dict \<Rightarrow> pyexn + (int \<times> int)" where
  "score_parts match =
     (case dict_get match ''score'' (JStr ''0 - 0'') of
        JStr score \<Rightarrow>
          (let parts = py_split score '' - '' in
           case py_index parts 0 of Inl e \<Rightarrow> Inl e | Inr p0 \<Rightarrow>
           case py_int p0 of Inl e \<Rightarrow> Inl e | Inr a \<Rightarrow>
           case py_index parts 1 of Inl e \<Rightarrow> Inl e | Inr p1 \<Rightarrow>
           case py_int p1 of Inl e \<Rightarrow> Inl e | Inr b \<Rightarrow> Inr (a, b))
      | _ \<Rightarrow> Inl AttributeError)"

text \<open>One pass of the loop of \<^verbatim>\<open>calculate_tempo_score\<close>: an exception in the body,
  that of the division \<^verbatim>\<open>total_rounds / 30\<close> too, is swallowed and the list is left as
  it was.\<close>

definition tempo_step :: "dict \<Rightarrow> real list \<Rightarrow> real list" where
  "tempo_step match tempo_scores =
     (case score_parts match of
        Inl e \<Rightarrow> tempo_scores
      | Inr (a, b) \<Rightarrow>
          (let total_rounds = a + b in
           if total_rounds > 0 then
             (case int_true_div total_rounds 30 of
                Inl e \<Rightarrow> tempo_scores
              | Inr q \<Rightarrow> tempo_scores @ [1 - q])
           else tempo_scores))"

fun tempo_loop :: "dict list \<Rightarrow> real list \<Rightarrow> real list" where
  "tempo_loop [] tempo_scores = tempo_scores"
| "tempo_loop (match # rest) tempo_scores = tempo_loop rest (tempo_step match tempo_scores)"

definition calculate_tempo_score :: "dict list \<Rightarrow> real" where
  "calculate_tempo_score matches =
     (if matches = [] then 0.5
      else (let tempo_scores = tempo_loop matches [] in
            clip (if tempo_scores \<noteq> [] then mean tempo_scores else 0.5) 0 1))"

text \<open>One pass of the loop of \<^verbatim>\<open>calculate_comeback_probability\<close> on the pair
  \<open>(comebacks, total)\<close>. The two tests are separate statements, both run.\<close>

definition comeback_step :: "dict \<Rightarrow> int \<times> int \<Rightarrow> int \<times> int" where
  "comeback_step match ct =
     (case score_parts match of
        Inl e \<Rightarrow> ct
      | Inr (won, lost) \<Rightarrow>
          (let (comebacks, total) = ct;
               total1 = (if dict_get match ''result'' JNull = JStr ''loss'' \<and> lost - won \<le> 2
                         then total + 1 else total)
           in if dict_get match ''result'' JNull = JStr ''win'' \<and> won - lost \<ge> 4
              then (comebacks + 1, total1 + 1) else (comebacks, total1)))"

fun comeback_loop :: "dict list \<Rightarrow> int \<times> int \<Rightarrow> int \<times> int" where
  "comeback_loop [] ct = ct"
| "comeback_loop (match # rest) ct = comeback_loop rest (comeback_step match ct)"

definition calculate_comeback_probability :: "dict list \<Rightarrow> real" where
  "calculate_comeback_probability matches =
     (if matches = [] then 0.5
      else (let (comebacks, total) = comeback_loop matches (0, 0) in
            if total > 0 then of_int comebacks / of_int total else 0.5))"

text \<open>
  \<^verbatim>\<open>calculate_win_rate_trend\<close> goes through a pandas data frame. A frame built from a
  list of dicts has one column per key that occurs in some dict, a missing cell being
  NaN; \<^verbatim>\<open>df['result']\<close> raises \<^verbatim>\<open>KeyError\<close> when no dict has the key. A cell other
  than the string \<^verbatim>\<open>'win'\<close> (NaN too) gives the indicator 0.
\<close>

definition win_indicator :: "dict \<Rightarrow> real" where
  "win_indicator match = (if map_of match ''result'' = Some (JStr ''win'') then 1 else 0)"

text \<open>\<^verbatim>\<open>rolling(window=3, min_periods=1).mean()\<close>: at position \<open>i\<close>, the mean of the
  values at the positions \<open>i - 2\<close> to \<open>i\<close> that exist.\<close>

definition rolling_mean3 :: "real list \<Rightarrow> real list" where
  "rolling_mean3 xs = map (\<lambda>i. mean (drop (Suc i - 3) (take (Suc i) xs))) [0..<length xs]"

definition calculate_win_rate_trend :: "dict list \<Rightarrow> pyexn + real" where
  "calculate_win_rate_trend matches =
     (if length matches < 2 then Inr 0
      else if \<not> (\<exists>m \<in> set matches. map_of m ''result'' \<noteq> None) then Inl KeyError
      else (let win = map win_indicator matches;
                rolling_win_rate = rolling_mean3 win;
                recent_trend = last rolling_win_rate - mean win
            in Inr (clip recent_trend (-1) 1)))"

text \<open>The body of \<^verbatim>\<open>main\<close> between reading the match list and printing: an exception
  of a metric leaves the \<^verbatim>\<open>try\<close> block, and the process answers with an error.\<close>

definition extract_features :: "dict list \<Rightarrow> pyexn + dict" where
  "extract_features matches =
     (case calculate_win_rate_trend matches of
        Inl e \<Rightarrow> Inl e
      | Inr trend \<Rightarrow>
          (let result = [(''win_rate_trend'', JNum (PFloat trend)),
                         (''tempo_score'', JNum (PFloat (calculate_tempo_score matches))),
                         (''comeback_probability'', JNum (PFloat (calculate_comeback_probability matches)))];
               wins = length (filter (\<lambda>m. dict_get m ''result'' JNull = JStr ''win'') matches)
           in Inr (dict_set result ''win_rate''
                     (JNum (PFloat (if matches \<noteq> [] then real wins / real (length matches) else 0.5))))))"

text \<open>How a score is written: \<open>decimal n\<close> is the decimal numeral of \<open>n\<close>, as
  \<^verbatim>\<open>str(n)\<close> prints it.\<close>

definition digit_char :: "nat \<Rightarrow> char" where
  "digit_char d = char_of (48 + d)"

fun decimal :: "nat \<Rightarrow> string" where
  "decimal n = (if n < 10 then [digit_char n] else decimal (n div 10) @ [digit_char (n mod 10)])"

declare decimal.simps [simp del]

section \<open>Strategy simulator\<close>

text \<open>A feature read from the request enters arithmetic with a float: a float is
  used as it is, an \<open>int\<close> is converted, a boolean counts as 0 or 1, any other value
  raises \<^verbatim>\<open>TypeError\<close>.\<close>

fun feature_num :: "json \<Rightarrow> pyexn + real" where
  "feature_num (JNum (PFloat r)) = Inr r"
| "feature_num (JNum (PInt i)) = int_to_float i"
| "feature_num (JBool b) = Inr (if b then 1 else 0)"
| "feature_num _ = Inl TypeError"

text \<open>The deterministic part of \<^verbatim>\<open>simulate_match\<close>, up to and including the clamp.\<close>

definition base_prob :: "dict \<Rightarrow> pyexn + real" where
  "base_prob features =
     (case feature_num (dict_get features ''win_rate'' (JNum (PFloat 0.5))) of Inl e \<Rightarrow> Inl e
      | Inr win_rate \<Rightarrow>
     (case feature_num (dict_get features ''tempo_score'' (JNum (PFloat 0.5))) of Inl e \<Rightarrow> Inl e
      | Inr tempo \<Rightarrow>
     (case feature_num (dict_get features ''comeback_probability'' (JNum (PFloat 0.5))) of Inl e \<Rightarrow> Inl e
      | Inr comeback \<Rightarrow>
          Inr (max 0.1 (min 0.9
                 (0.5 + (win_rate - 0.5) * 0.4 + (tempo - 0.5) * 0.1 + (comeback - 0.5) * 0.1))))))"

text \<open>\<^verbatim>\<open>round(x, 3)\<close> in exact arithmetic: the nearest multiple of 1/1000, a tie going
  to the even one. On an \<^verbatim>\<open>int\<close> it returns the \<^verbatim>\<open>int\<close>.\<close>

definition round_half_even :: "real \<Rightarrow> int" where
  "round_half_even y =
     (let f = \<lfloor>y\<rfloor>; d = y - of_int f in
      if d < 1 / 2 then f else if d > 1 / 2 then f + 1 else if even f then f else f + 1)"

definition round3 :: "real \<Rightarrow> real" where
  "round3 x = of_int (round_half_even (x * 1000)) / 1000"

fun py_round3 :: "pynum \<Rightarrow> pynum" where
  "py_round3 (PInt i) = PInt i"
| "py_round3 (PFloat x) = PFloat (round3 x)"

text \<open>The sampling loop draws from the process-wide generator; here the draws are
  given: \<open>rand i\<close> is what the \<open>i\<close>-th call of \<^verbatim>\<open>random.random()\<close> returns.\<close>

definition simulate_match :: "(nat \<Rightarrow> real) \<Rightarrow> dict \<Rightarrow> pyexn + dict" where
  "simulate_match rand features =
     (case base_prob features of
        Inl e \<Rightarrow> Inl e
      | Inr base \<Rightarrow>
          (let num_simulations = 1000 :: nat;
               wins = length (filter (\<lambda>i. rand i < base) [0..<num_simulations]);
               win_probability = real wins / real num_simulations
           in Inr [(''predicted_win_probability'', JNum (PFloat (round3 win_probability)))]))"

section \<open>Retrieval of similar matches\<close>

text \<open>\<^verbatim>\<open>str.lower\<close>: the capital letters are \<^verbatim>\<open>A\<close> to \<^verbatim>\<open>Z\<close> and the code points 192
  to 222 without the multiplication sign 215; the small letter is 32 further.\<close>

definition py_lower :: "string \<Rightarrow> string" where
  "py_lower s = map (\<lambda>c. let n = of_char c :: nat in
                          if (65 \<le> n \<and> n \<le> 90) \<or> (192 \<le> n \<and> n \<le> 222 \<and> n \<noteq> 215)
                          then char_of (n + 32) else c) s"

text \<open>\<^verbatim>\<open>s.split()\<close>: the maximal runs of non-whitespace characters.\<close>

fun split_ws :: "string \<Rightarrow> string \<Rightarrow> string list" where
  "split_ws cur [] = (if cur = [] then [] else [cur])"
| "split_ws cur (c # cs) =
     (if py_isspace c then (if cur = [] then split_ws [] cs else cur # split_ws [] cs)
      else split_ws (cur @ [c]) cs)"

fun count_words :: "string list \<Rightarrow> (string \<times> int) list \<Rightarrow> (string \<times> int) list" where
  "count_words [] word_counts = word_counts"
| "count_words (word # rest) word_counts =
     count_words rest
       (AList.update word ((case map_of word_counts word of Some n \<Rightarrow> n | None \<Rightarrow> 0) + 1) word_counts)"

definition text_to_vector :: "string \<Rightarrow> int list" where
  "text_to_vector text = map snd (count_words (split_ws [] (py_lower text)) [])"

text \<open>\<^verbatim>\<open>zip\<close> stops at the shorter list. The norms are floats (the power
  \<^verbatim>\<open>** 0.5\<close> is the square root), the result is the \<^verbatim>\<open>int\<close> 0 when their product is
  not positive. This is the cosine in exact arithmetic: the float that the code
  returns is near it, and need not be equal to it.\<close>

definition cosine_similarity :: "int list \<Rightarrow> int list \<Rightarrow> pynum" where
  "cosine_similarity a b =
     (let dot = sum_list (map (\<lambda>(x, y). x * y) (zip a b));
          norm_a = sqrt (of_int (sum_list (map (\<lambda>x. x * x) a)));
          norm_b = sqrt (of_int (sum_list (map (\<lambda>x. x * x) b)))
      in if norm_a * norm_b > 0 then PFloat (of_int dot / (norm_a * norm_b)) else PInt 0)"

text \<open>A field in an f-string is printed by \<^verbatim>\<open>str\<close>: a string prints as itself; the
  text of any other value is given by \<open>fmt\<close>, a parameter of the model.\<close>

definition py_format :: "(json \<Rightarrow> string) \<Rightarrow> json \<Rightarrow> string" where
  "py_format fmt v = (case v of JStr s \<Rightarrow> s | _ \<Rightarrow> fmt v)"

definition match_text :: "(json \<Rightarrow> string) \<Rightarrow> dict \<Rightarrow> string" where
  "match_text fmt match =
     py_format fmt (dict_get match ''teamName'' (JStr [])) @ '' '' @
     py_format fmt (dict_get match ''result'' (JStr [])) @ '' '' @
     py_format fmt (dict_get match ''opponent'' (JStr []))"

text \<open>
  The records of the history are objects that the caller still holds, so the dicts live
  in a store: an address is a number, \<open>next_free\<close> is the first address not yet in use,
  and the history is a list of addresses (the same record may occur twice).
  \<^verbatim>\<open>match.copy()\<close> makes a new object.
\<close>

record heap =
  store :: "nat \<Rightarrow> dict"
  next_free :: nat

definition copy_dict :: "nat \<Rightarrow> heap \<Rightarrow> nat \<times> heap" where
  "copy_dict a h = (next_free h, h\<lparr>store := (store h)(next_free h := store h a),
                                    next_free := Suc (next_free h)\<rparr>)"

definition set_item :: "nat \<Rightarrow> string \<Rightarrow> json \<Rightarrow> heap \<Rightarrow> heap" where
  "set_item a k v h = h\<lparr>store := (store h)(a := dict_set (store h a) k v)\<rparr>"

text \<open>\<^verbatim>\<open>xs[:k]\<close>: a negative \<open>k\<close> counts from the end.\<close>

definition py_slice_to :: "int \<Rightarrow> 'a list \<Rightarrow> 'a list" where
  "py_slice_to k xs = (if k \<ge> 0 then take (nat k) xs else take (nat (int (length xs) + k)) xs)"

text \<open>The body of the loop over \<^verbatim>\<open>enumerate(scored[:top_k])\<close>, for the index \<open>i\<close>
  and the pair \<open>(sim, match)\<close>: it returns the address of the new record.\<close>

definition attach_result :: "nat \<Rightarrow> pynum \<Rightarrow> nat \<Rightarrow> heap \<Rightarrow> nat \<times> heap" where
  "attach_result i sim match h =
     (let (result, h1) = copy_dict match h;
          h2 = set_item result ''similarity'' (JNum (py_round3 sim)) h1;
          h3 = set_item result ''rank'' (JNum (PInt (int i + 1))) h2
      in (result, h3))"

fun attach_loop :: "nat \<Rightarrow> (pynum \<times> nat) list \<Rightarrow> heap \<Rightarrow> nat list \<Rightarrow> nat list \<times> heap" where
  "attach_loop i [] h results = (results, h)"
| "attach_loop i ((sim, match) # rest) h results =
     (let (result, h') = attach_result i sim match h
      in attach_loop (Suc i) rest h' (results @ [result]))"

text \<open>The body of the first loop of \<^verbatim>\<open>find_similar_matches\<close>: the similarity of one
  record to the query vector.\<close>

definition match_similarity :: "(json \<Rightarrow> string) \<Rightarrow> int list \<Rightarrow> dict \<Rightarrow> pynum" where
  "match_similarity fmt query_vec match =
     (let match_vec = text_to_vector (match_text fmt match)
      in cosine_similarity query_vec match_vec)"

text \<open>The first loop: the list \<^verbatim>\<open>scored\<close> of pairs of a similarity and a record.\<close>

definition score_history :: "(json \<Rightarrow> string) \<Rightarrow> string \<Rightarrow> nat list \<Rightarrow> heap \<Rightarrow> (pynum \<times> nat) list" where
  "score_history fmt query history h =
     (let query_vec = text_to_vector query in
      map (\<lambda>match. (match_similarity fmt query_vec (store h match), match)) history)"

text \<open>\<^verbatim>\<open>scored.sort(key=lambda x: -x[0])\<close> is a stable sort by the key; \<open>sort_key\<close> is
  the stable insertion sort.\<close>

definition find_similar_matches ::
    "(json \<Rightarrow> string) \<Rightarrow> string \<Rightarrow> nat list \<Rightarrow> int \<Rightarrow> heap \<Rightarrow> nat list \<times> heap" where
  "find_similar_matches fmt query history top_k h =
     (let scored = score_history fmt query history h;
          scored = sort_key (\<lambda>x. - num_val (fst x)) scored
      in attach_loop 0 (py_slice_to top_k scored) h [])"

text \<open>
  The sort and the second loop read a similarity through its value only, and in the
  code this value comes out of float arithmetic, which the exact cosine above
  idealises: two floats may differ where the exact values are equal.
  \<open>find_similar_matches_by sim\<close> is \<^verbatim>\<open>find_similar_matches\<close> with the number that the
  body of the first loop computes for a record given as \<open>sim match\<close>. The exact cosine
  is one such \<open>sim\<close>, the float that the code computes is another: it is a function of
  the record (for one query), and it is a finite number.
\<close>

definition find_similar_matches_by ::
    "(dict \<Rightarrow> pynum) \<Rightarrow> nat list \<Rightarrow> int \<Rightarrow> heap \<Rightarrow> nat list \<times> heap" where
  "find_similar_matches_by sim history top_k h =
     (let scored = map (\<lambda>match. (sim (store h match), match)) history;
          scored = sort_key (\<lambda>x. - num_val (fst x)) scored
      in attach_loop 0 (py_slice_to top_k scored) h [])"

text \<open>The built-in corpus, at the addresses 0, 1 and 2 of an otherwise empty store.\<close>

definition MOCK_HISTORY :: "dict list" where
  "MOCK_HISTORY =
     [[(''teamName'', JStr ''C9''), (''result'', JStr ''win''), (''score'', JStr ''13-5''), (''opponent'', JStr ''T1'')],
      [(''teamName'', JStr ''C9''), (''result'', JStr ''loss''), (''score'', JStr ''11-13''), (''opponent'', JStr ''G2'')],
      [(''teamName'', JStr ''C9''), (''result'', JStr ''win''), (''score'', JStr ''13-3''), (''opponent'', JStr ''NAVI'')]]"

definition mock_heap :: heap where
  "mock_heap = \<lparr>store = (\<lambda>a. if a < 3 then MOCK_HISTORY ! a else []), next_free = 3\<rparr>"


text \<open>A corpus of three records whose texts have the word counts \<open>[3, 4]\<close>, \<open>[4, 3]\<close>
  and \<open>[4, 3]\<close>, at the addresses 0, 1 and 2.\<close>

definition SAMPLE_HISTORY :: "dict list" where
  "SAMPLE_HISTORY =
     [[(''teamName'', JStr ''C9 C9 C9''), (''result'', JStr ''win win win win''), (''opponent'', JStr [])],
      [(''teamName'', JStr ''C9 C9 C9 C9''), (''result'', JStr ''win win win''), (''opponent'', JStr [])],
      [(''teamName'', JStr ''G2 G2 G2 G2''), (''result'', JStr ''loss loss loss''), (''opponent'', JStr [])]]"

definition sample_heap :: heap where
  "sample_heap = \<lparr>store = (\<lambda>a. if a < 3 then SAMPLE_HISTORY ! a else []), next_free = 3\<rparr>"

text \<open>The exact similarity to the query \<^verbatim>\<open>"C9"\<close>, and the call on this corpus with
  \<open>top_k = 3\<close>.\<close>

definition sample_sim :: "dict \<Rightarrow> pynum" where
  "sample_sim = match_similarity (\<lambda>v. []) (text_to_vector ''C9'')"

definition sample_run :: "nat list \<times> heap" where
  "sample_run = find_similar_matches_by sample_sim [0, 1, 2] 3 sample_heap"
section \<open>Properties of the feature metrics\<close>

subsection \<open>Reading a score\<close>

lemma digit_char_isdigit: "d < 10 \<Longrightarrow> py_isdigit (digit_char d)"
  by (simp add: py_isdigit_def digit_char_def)

lemma digit_char_val: "d < 10 \<Longrightarrow> digit_val (digit_char d) = d"
  by (simp add: digit_val_def digit_char_def)

lemma decimal_digits: "c \<in> set (decimal n) \<Longrightarrow> py_isdigit c"
proof (induction n arbitrary: c rule: decimal.induct)
  case (1 n)
  show ?case
  proof (cases "n < 10")
    case True
    with "1.prems" show ?thesis
      by (simp add: decimal.simps [of n] digit_char_isdigit)
  next
    case False
    with "1.prems" "1.IH" show ?thesis
      by (auto simp add: decimal.simps [of n] digit_char_isdigit)
  qed
qed

lemma decimal_nonempty: "decimal n \<noteq> []"
  by (subst decimal.simps) simp

lemma decimal_length: "n < 10 ^ k \<Longrightarrow> 0 < k \<Longrightarrow> length (decimal n) \<le> k"
proof (induction n arbitrary: k rule: decimal.induct)
  case (1 n)
  show ?case
  proof (cases "n < 10")
    case True
    then show ?thesis using "1.prems" by (simp add: decimal.simps [of n])
  next
    case False
    obtain j where k: "k = Suc j" using "1.prems"(2) by (cases k) auto
    have "j \<noteq> 0" using False "1.prems"(1) k by (cases j) auto
    moreover have "n div 10 < 10 ^ j" using "1.prems"(1) k by (simp add: less_mult_imp_div_less mult.commute)
    ultimately have "length (decimal (n div 10)) \<le> j" using "1.IH" [OF False, of j] by simp
    then show ?thesis using False k by (simp add: decimal.simps [of n])
  qed
qed

lemma float_limit_bound: "30 * float_limit < 10 ^ 4300"
proof -
  have "30 * float_limit < (2::real) ^ 1030"
    by (simp add: float_limit_def)
  also have "\<dots> = (2 ^ 10) ^ 103" by (simp only: power_mult [symmetric]) simp
  also have "\<dots> \<le> ((10::real) ^ 4) ^ 103" by (rule power_mono) simp_all
  also have "\<dots> = 10 ^ 412" by (simp only: power_mult [symmetric]) simp
  also have "\<dots> \<le> (10::real) ^ 4300" by (rule power_increasing) simp_all
  finally show ?thesis .
qed

text \<open>A numeral whose value divided by 30 is a float has fewer digits than the limit
  of \<^verbatim>\<open>int()\<close>.\<close>

lemma decimal_short:
  assumes "real n / 30 < float_limit"
  shows "length (decimal n) \<le> 4300"
proof -
  have "real n < 30 * float_limit" using assms by simp
  also have "\<dots> < 10 ^ 4300" by (rule float_limit_bound)
  also have "\<dots> = real (10 ^ 4300)" by (simp only: of_nat_power of_nat_numeral)
  finally have "n < 10 ^ 4300" by (simp only: of_nat_less_iff)
  then show ?thesis by (rule decimal_length) simp
qed

lemma isdigit_not_space: "py_isdigit c \<Longrightarrow> \<not> int_isspace c"
  by (auto simp add: py_isdigit_def int_isspace_def Let_def)

lemma isdigit_neq: "py_isdigit c \<Longrightarrow> c \<noteq> CHR '' '' \<and> c \<noteq> CHR ''-'' \<and> c \<noteq> CHR ''+'' \<and> c \<noteq> CHR ''_''"
  by (auto simp add: py_isdigit_def)

lemma int_digits_append:
  "\<forall>c \<in> set xs. py_isdigit c \<Longrightarrow>
   int_digits p acc (xs @ ys) = int_digits (p \<or> xs \<noteq> []) (foldl (\<lambda>a c. 10 * a + digit_val c) acc xs) ys"
  by (induction xs arbitrary: p acc) auto

lemma foldl_decimal: "foldl (\<lambda>a c. 10 * a + digit_val c) acc (decimal n) = acc * 10 ^ length (decimal n) + n"
proof (induction n arbitrary: acc rule: decimal.induct)
  case (1 n)
  show ?case
  proof (cases "n < 10")
    case True
    then show ?thesis by (simp add: decimal.simps [of n] digit_char_val)
  next
    case False
    then have "foldl (\<lambda>a c. 10 * a + digit_val c) acc (decimal n)
        = 10 * (acc * 10 ^ length (decimal (n div 10)) + n div 10) + n mod 10"
      using "1.IH" [of acc] by (simp add: decimal.simps [of n] digit_char_val)
    also have "\<dots> = acc * 10 ^ length (decimal n) + n"
      using False by (simp add: decimal.simps [of n] algebra_simps)
    finally show ?thesis .
  qed
qed

lemma int_digits_decimal: "int_digits False 0 (decimal n) = Some n"
  using int_digits_append [of "decimal n" False 0 "[]"] decimal_digits [of _ n]
  by (simp add: foldl_decimal decimal_nonempty)

lemma filter_digits_decimal: "filter py_isdigit (decimal n) = decimal n"
  using decimal_digits by (simp add: filter_id_conv)

lemma int_literal_decimal:
  "int_literal (decimal n) = (if length (decimal n) \<le> 4300 then Some n else None)"
  by (simp add: int_literal_def filter_digits_decimal int_digits_decimal)

lemma dropWhile_none: "\<forall>c \<in> set s. \<not> P c \<Longrightarrow> dropWhile P s = s"
  by (cases s) auto

lemma strip_no_space: "\<forall>c \<in> set s. \<not> int_isspace c \<Longrightarrow> int_strip s = s"
  by (simp add: int_strip_def dropWhile_none)

lemma py_int_decimal:
  "py_int (decimal n) = (if length (decimal n) \<le> 4300 then Inr (int n) else Inl ValueError)"
proof -
  have ns: "\<forall>c \<in> set (decimal n). \<not> int_isspace c"
    using decimal_digits isdigit_not_space by blast
  obtain c cs where d: "decimal n = c # cs"
    using decimal_nonempty [of n] by (cases "decimal n") auto
  then have "py_isdigit c" using decimal_digits [of c n] by simp
  then have "c \<noteq> CHR ''-''" "c \<noteq> CHR ''+''" using isdigit_neq by blast+
  moreover have "int_strip (decimal n) = c # cs"
    using strip_no_space [OF ns] d by simp
  moreover have "int_literal (c # cs) = (if length (decimal n) \<le> 4300 then Some n else None)"
    using int_literal_decimal [of n] d by simp
  ultimately show ?thesis
    unfolding py_int_def by simp
qed

text \<open>The white space of \<^verbatim>\<open>int()\<close>: the no-break space is dropped, the separator 28
  is not, and \<^verbatim>\<open>int()\<close> raises on it.\<close>

lemma py_int_white_space:
  "py_int (CHR 0xA0 # ''13 '') = Inr 13 \<and> py_int (CHR 0x1C # ''13'') = Inl ValueError"
  by (simp add: py_int_def int_strip_def int_isspace_def int_literal_def py_isdigit_def digit_val_def)

lemma split_from_no_space:
  "CHR '' '' \<notin> set xs \<Longrightarrow> split_from '' - '' cur (xs @ ys) = split_from '' - '' (cur @ xs) ys"
  by (induction xs arbitrary: cur) auto

lemma split_spaced:
  "CHR '' '' \<notin> set xs \<Longrightarrow> CHR '' '' \<notin> set ys \<Longrightarrow> py_split (xs @ '' - '' @ ys) '' - '' = [xs, ys]"
  using split_from_no_space [of xs "[]" "'' - '' @ ys"] split_from_no_space [of ys "[]" "[]"]
  by (simp add: py_split_def)

lemma split_no_space: "CHR '' '' \<notin> set s \<Longrightarrow> py_split s '' - '' = [s]"
  using split_from_no_space [of s "[]" "[]"] by (simp add: py_split_def)

lemma decimal_no_space: "CHR '' '' \<notin> set (decimal n)"
  using decimal_digits isdigit_neq by blast

lemma score_parts_two:
  "map_of m ''score'' = Some (JStr s) \<Longrightarrow> py_split s '' - '' = [x, y] \<Longrightarrow>
   score_parts m = (case py_int x of Inl e \<Rightarrow> Inl e
                    | Inr a \<Rightarrow> (case py_int y of Inl e \<Rightarrow> Inl e | Inr b \<Rightarrow> Inr (a, b)))"
  by (simp add: score_parts_def dict_get_def py_index_def split: sum.splits)

lemma score_parts_one:
  "map_of m ''score'' = Some (JStr s) \<Longrightarrow> py_split s '' - '' = [x] \<Longrightarrow> \<exists>e. score_parts m = Inl e"
  by (simp add: score_parts_def dict_get_def py_index_def split: sum.splits)

lemma score_parts_spaced:
  assumes "map_of m ''score'' = Some (JStr (decimal a @ '' - '' @ decimal b))"
  shows "score_parts m =
     (if length (decimal a) \<le> 4300 \<and> length (decimal b) \<le> 4300 then Inr (int a, int b)
      else Inl ValueError)"
  using score_parts_two [OF assms split_spaced [OF decimal_no_space decimal_no_space]]
  by (simp add: py_int_decimal)

lemma score_parts_no_space:
  "map_of m ''score'' = Some (JStr s) \<Longrightarrow> CHR '' '' \<notin> set s \<Longrightarrow> \<exists>e. score_parts m = Inl e"
  by (rule score_parts_one [OF _ split_no_space])

lemma tempo_loop_append: "tempo_loop (ms @ [m]) acc = tempo_step m (tempo_loop ms acc)"
  by (induction ms arbitrary: acc) auto

lemma decimal_13: "decimal 13 = ''13''"
  by code_simp

lemma decimal_5: "decimal 5 = ''5''"
  by code_simp

text \<open>
  C1, as stated, fails: the score \<^verbatim>\<open>"13-5"\<close> holds no occurrence of \<^verbatim>\<open>" - "\<close>, so
  \<^verbatim>\<open>split\<close> returns one part, \<^verbatim>\<open>int("13-5")\<close> raises and the match is skipped: the
  tempo score of this one match is the default 0.5, while the same score written
  \<^verbatim>\<open>"13 - 5"\<close> gives \<open>1 - 18/30\<close>.
\<close>

theorem tempo_score_unspaced_counterexample:
  "calculate_tempo_score [[(''score'', JStr ''13-5'')]] = 1 / 2
   \<and> calculate_tempo_score [[(''score'', JStr ''13 - 5'')]] = 1 - (13 + 5) / 30"
  by (simp add: calculate_tempo_score_def tempo_step_def score_parts_def dict_get_def py_split_def
      py_index_def py_int_def int_strip_def int_isspace_def int_literal_def py_isdigit_def digit_val_def
      int_true_div_def float_limit_def mean_def clip_def)

text \<open>
  C1 (amended): \<^verbatim>\<open>calculate_tempo_score\<close> reads a score as two integers separated by
  \<^verbatim>\<open>" - "\<close> only. A match whose score is written \<open>A - B\<close> (decimal numerals, with
  \<open>A + B > 0\<close>) adds the value \<open>1 - (A + B) / 30\<close> to the list whose mean is taken,
  as long as the quotient \<open>(A + B) / 30\<close> is a float, that is, below \<open>float_limit\<close>;
  beyond, the division raises (or, past 4300 digits, \<^verbatim>\<open>int()\<close> does) and the match
  adds nothing. A match whose score is written \<open>A-B\<close>, without the spaces, adds nothing.
\<close>

theorem tempo_score_separator:
  assumes "map_of m ''score'' = Some (JStr (decimal a @ '' - '' @ decimal b))"
    and "map_of m' ''score'' = Some (JStr (decimal a @ ''-'' @ decimal b))"
    and "0 < a + b"
  shows "tempo_loop (ms @ [m]) acc =
           (if (real a + real b) / 30 < float_limit
            then tempo_loop ms acc @ [1 - (real a + real b) / 30]
            else tempo_loop ms acc)
       \<and> tempo_loop (ms @ [m']) acc = tempo_loop ms acc"
proof -
  have "CHR '' '' \<notin> set (decimal a @ ''-'' @ decimal b)"
    using decimal_no_space by simp
  then obtain e where "score_parts m' = Inl e"
    using score_parts_no_space [OF assms(2)] by blast
  then have unspaced: "tempo_step m' (tempo_loop ms acc) = tempo_loop ms acc"
    by (simp add: tempo_step_def)
  have pos: "0 < int a + int b"
    using assms(3) by linarith
  have div: "int_true_div (int a + int b) 30 =
      (if (real a + real b) / 30 < float_limit then Inr ((real a + real b) / 30) else Inl OverflowError)"
    by (simp add: int_true_div_def)
  have spaced: "tempo_step m (tempo_loop ms acc) =
      (if (real a + real b) / 30 < float_limit
       then tempo_loop ms acc @ [1 - (real a + real b) / 30]
       else tempo_loop ms acc)"
  proof (cases "(real a + real b) / 30 < float_limit")
    case True
    have "real a / 30 \<le> (real a + real b) / 30" "real b / 30 \<le> (real a + real b) / 30"
      by simp_all
    with True have a: "real a / 30 < float_limit" and b: "real b / 30 < float_limit"
      by linarith+
    have "length (decimal a) \<le> 4300" "length (decimal b) \<le> 4300"
      using a b by (simp_all only: decimal_short)
    then have "score_parts m = Inr (int a, int b)"
      by (simp add: score_parts_spaced [OF assms(1)])
    then show ?thesis
      using True pos by (simp add: tempo_step_def Let_def div)
  next
    case False
    then show ?thesis
      using pos by (simp add: tempo_step_def Let_def div score_parts_spaced [OF assms(1)])
  qed
  show ?thesis
    by (simp only: tempo_loop_append spaced unspaced)
qed

text \<open>The amended C1 at the scores \<^verbatim>\<open>"13 - 5"\<close> and \<^verbatim>\<open>"13-5"\<close>, and at the score
  \<open>A - 0\<close> with \<open>A = 10 ^ 310\<close>, where the division raises.\<close>

theorem tempo_score_separator_witness:
  "tempo_loop ([] @ [[(''score'', JStr ''13 - 5'')]]) [] = tempo_loop [] [] @ [1 - (real 13 + real 5) / 30]
   \<and> tempo_loop ([] @ [[(''score'', JStr ''13-5'')]]) [] = tempo_loop [] []
   \<and> tempo_loop ([] @ [[(''score'', JStr (decimal (10 ^ 310) @ '' - '' @ decimal 0))]]) [] = tempo_loop [] []"
  using tempo_score_separator [of "[(''score'', JStr ''13 - 5'')]" 13 5 "[(''score'', JStr ''13-5'')]" "[]" "[]"]
    tempo_score_separator [of "[(''score'', JStr (decimal (10 ^ 310) @ '' - '' @ decimal 0))]" "10 ^ 310" 0
      "[(''score'', JStr (decimal (10 ^ 310) @ ''-'' @ decimal 0))]" "[]" "[]"]
  by (simp add: decimal_13 decimal_5 float_limit_def)

subsection \<open>The comeback metric\<close>

text \<open>A score that \<^verbatim>\<open>int()\<close> refuses leaves the counts as they were: here the first
  number is preceded by the separator 28.\<close>

lemma comeback_step_unparsable:
  "comeback_step [(''result'', JStr ''win''), (''score'', JStr (CHR 0x1C # ''13 - 5''))] (c, t) = (c, t)"
  by (simp add: comeback_step_def score_parts_def dict_get_def py_split_def py_index_def py_int_def
      int_strip_def int_isspace_def int_literal_def py_isdigit_def digit_val_def)

text \<open>
  C2, as stated, fails: a loss with the score \<^verbatim>\<open>"13 - 5"\<close> is counted in the qualifying
  set (\<open>total\<close> goes from 0 to 1), because the test is \<open>lost - won \<le> 2\<close>, here
  \<open>5 - 13 \<le> 2\<close>, while the absolute difference 8 is not at most 2.
\<close>

theorem comeback_margin_counterexample:
  "comeback_step [(''result'', JStr ''loss''), (''score'', JStr ''13 - 5'')] (0, 0) = (0, 1)
   \<and> \<not> \<bar>13 - 5\<bar> \<le> (2::int)"
  by (simp add: comeback_step_def score_parts_def dict_get_def py_split_def py_index_def py_int_def int_strip_def int_isspace_def int_literal_def py_isdigit_def digit_val_def)

text \<open>
  C2 (amended): for a match whose score parses to \<open>(A, B)\<close>, membership in the
  qualifying set is decided by the signed differences: a loss qualifies if and only if
  \<open>B - A \<le> 2\<close>, and a win qualifies, and counts as a comeback, if and only if
  \<open>A - B \<ge> 4\<close>; a match that is neither a loss nor a win changes nothing.
\<close>

theorem comeback_step_signed:
  assumes "score_parts m = Inr (a, b)"
  shows "comeback_step m (c, t) =
     (if dict_get m ''result'' JNull = JStr ''loss'' then (if b - a \<le> 2 then (c, t + 1) else (c, t))
      else if dict_get m ''result'' JNull = JStr ''win'' then (if a - b \<ge> 4 then (c + 1, t + 1) else (c, t))
      else (c, t))"
  using assms by (simp add: comeback_step_def)

text \<open>The amended C2 at a win with the score \<^verbatim>\<open>"5 - 13"\<close>: the absolute difference
  is 8, the signed one is \<open>- 8\<close>, and the match does not qualify.\<close>

theorem comeback_step_signed_witness:
  "score_parts [(''result'', JStr ''win''), (''score'', JStr ''5 - 13'')] = Inr (5, 13)
   \<and> comeback_step [(''result'', JStr ''win''), (''score'', JStr ''5 - 13'')] (0, 0) = (0, 0)"
proof -
  have sp: "score_parts [(''result'', JStr ''win''), (''score'', JStr ''5 - 13'')] = Inr (5, 13)"
    by (simp add: score_parts_def dict_get_def py_split_def py_index_def py_int_def int_strip_def int_isspace_def int_literal_def py_isdigit_def digit_val_def)
  show ?thesis
    using comeback_step_signed [OF sp, of 0 0] sp by (simp add: dict_get_def)
qed

subsection \<open>Records without a result\<close>

text \<open>
  C3: the metrics are meant to return a value on every list of match records. On the
  list of two records \<^verbatim>\<open>[{"score": "13 - 5"}, {"score": "5 - 13"}]\<close>, none of which has
  a \<^verbatim>\<open>result\<close>, \<^verbatim>\<open>calculate_win_rate_trend\<close> raises \<^verbatim>\<open>KeyError\<close> at
  \<^verbatim>\<open>df['result']\<close>, and the whole extraction ends with the error.
\<close>

theorem win_rate_trend_missing_result:
  "calculate_win_rate_trend [[(''score'', JStr ''13 - 5'')], [(''score'', JStr ''5 - 13'')]] = Inl KeyError
   \<and> extract_features [[(''score'', JStr ''13 - 5'')], [(''score'', JStr ''5 - 13'')]] = Inl KeyError"
  by (simp add: calculate_win_rate_trend_def extract_features_def)

subsection \<open>Ranges\<close>

lemma clip_range: "lo \<le> hi \<Longrightarrow> lo \<le> clip x lo hi \<and> clip x lo hi \<le> hi"
  by (simp add: clip_def)

lemma tempo_range: "0 \<le> calculate_tempo_score ms \<and> calculate_tempo_score ms \<le> 1"
  using clip_range [of 0 1] by (simp add: calculate_tempo_score_def Let_def)

lemma trend_range: "calculate_win_rate_trend ms = Inr t \<Longrightarrow> - 1 \<le> t \<and> t \<le> 1"
  using clip_range [of "-1" 1] by (auto simp add: calculate_win_rate_trend_def Let_def split: if_splits)

lemma comeback_step_inv:
  "0 \<le> c \<Longrightarrow> c \<le> t \<Longrightarrow> comeback_step m (c, t) = (c', t') \<Longrightarrow> 0 \<le> c' \<and> c' \<le> t'"
  by (auto simp add: comeback_step_def Let_def split: sum.splits if_splits prod.splits)

lemma comeback_loop_inv:
  "0 \<le> c \<Longrightarrow> c \<le> t \<Longrightarrow> comeback_loop ms (c, t) = (c', t') \<Longrightarrow> 0 \<le> c' \<and> c' \<le> t'"
proof (induction ms arbitrary: c t)
  case Nil
  then show ?case by simp
next
  case (Cons m ms)
  obtain c1 t1 where st: "comeback_step m (c, t) = (c1, t1)"
    by (cases "comeback_step m (c, t)")
  with Cons.prems comeback_step_inv have "0 \<le> c1 \<and> c1 \<le> t1" by blast
  with Cons.IH [of c1 t1] Cons.prems(3) st show ?case by simp
qed

lemma comeback_range:
  "0 \<le> calculate_comeback_probability ms \<and> calculate_comeback_probability ms \<le> 1"
proof (cases "ms = []")
  case True
  then show ?thesis by (simp add: calculate_comeback_probability_def)
next
  case False
  obtain c t where l: "comeback_loop ms (0, 0) = (c, t)"
    by (cases "comeback_loop ms (0, 0)")
  then have "0 \<le> c \<and> c \<le> t"
    using comeback_loop_inv [of 0 0 ms c t] by simp
  then show ?thesis
    using False l by (simp add: calculate_comeback_probability_def)
qed

text \<open>
  C5: for every match list, the tempo score lies in \<open>[0, 1]\<close>, the comeback probability
  lies in \<open>[0, 1]\<close>, and the win-rate trend, whenever \<^verbatim>\<open>calculate_win_rate_trend\<close>
  returns one, lies in \<open>[-1, 1]\<close>. (The other two metrics always return.)
\<close>

theorem metrics_in_range:
  "(0 \<le> calculate_tempo_score ms \<and> calculate_tempo_score ms \<le> 1)
   \<and> (\<forall>t. calculate_win_rate_trend ms = Inr t \<longrightarrow> - 1 \<le> t \<and> t \<le> 1)
   \<and> (0 \<le> calculate_comeback_probability ms \<and> calculate_comeback_probability ms \<le> 1)"
  using tempo_range trend_range comeback_range by blast

text \<open>C5 on three records with the scores \<^verbatim>\<open>"abc"\<close>, \<^verbatim>\<open>"13-"\<close> and \<^verbatim>\<open>"0 - 0"\<close>: the
  trend is returned, and it is 0.\<close>

theorem metrics_in_range_witness:
  "calculate_win_rate_trend
     [[(''result'', JStr ''win''), (''score'', JStr ''abc'')],
      [(''result'', JStr ''loss''), (''score'', JStr ''13-'')],
      [(''result'', JStr ''win''), (''score'', JStr ''0 - 0'')]] = Inr 0
   \<and> - 1 \<le> (0::real) \<and> (0::real) \<le> 1
   \<and> 0 \<le> calculate_tempo_score
     [[(''result'', JStr ''win''), (''score'', JStr ''abc'')],
      [(''result'', JStr ''loss''), (''score'', JStr ''13-'')],
      [(''result'', JStr ''win''), (''score'', JStr ''0 - 0'')]]
   \<and> calculate_comeback_probability
     [[(''result'', JStr ''win''), (''score'', JStr ''abc'')],
      [(''result'', JStr ''loss''), (''score'', JStr ''13-'')],
      [(''result'', JStr ''win''), (''score'', JStr ''0 - 0'')]] \<le> 1"
proof -
  have t: "calculate_win_rate_trend
     [[(''result'', JStr ''win''), (''score'', JStr ''abc'')],
      [(''result'', JStr ''loss''), (''score'', JStr ''13-'')],
      [(''result'', JStr ''win''), (''score'', JStr ''0 - 0'')]] = Inr 0"
    by (simp add: calculate_win_rate_trend_def win_indicator_def rolling_mean3_def mean_def
        clip_def upt_conv_Cons numeral_3_eq_3)
  show ?thesis
    using t metrics_in_range [of "[[(''result'', JStr ''win''), (''score'', JStr ''abc'')],
      [(''result'', JStr ''loss''), (''score'', JStr ''13-'')],
      [(''result'', JStr ''win''), (''score'', JStr ''0 - 0'')]]"]
    by simp
qed

section \<open>Properties of the simulator\<close>

text \<open>
  C4, as stated, fails: with the three features equal to 1, the formula gives
  \<open>0.5 + 0.5 * 0.4 + 0.5 * 0.1 + 0.5 * 0.1 = 0.8\<close>, which the clamp to \<open>[0.1, 0.9]\<close>
  leaves as it is; the base probability is \<open>4/5\<close>, not \<open>9/10\<close>.
\<close>

theorem base_prob_all_ones_counterexample:
  "base_prob [(''win_rate'', JNum (PFloat 1)), (''tempo_score'', JNum (PFloat 1)),
              (''comeback_probability'', JNum (PFloat 1))] = Inr (4 / 5)
   \<and> (4 / 5 :: real) \<noteq> 9 / 10"
  by (simp add: base_prob_def dict_get_def)

text \<open>
  C4 (amended): in \<^verbatim>\<open>simulate_match\<close>, with \<^verbatim>\<open>win_rate\<close>, \<^verbatim>\<open>tempo_score\<close> and
  \<^verbatim>\<open>comeback_probability\<close> all equal to 1.0, the base probability computed by the formula
  and then clamped to \<open>[0.1, 0.9]\<close> equals 0.8 in exact arithmetic: the upper bound of the
  clamp is not reached.
\<close>

theorem base_prob_all_ones:
  assumes "map_of features ''win_rate'' = Some (JNum (PFloat 1))"
    and "map_of features ''tempo_score'' = Some (JNum (PFloat 1))"
    and "map_of features ''comeback_probability'' = Some (JNum (PFloat 1))"
  shows "base_prob features = Inr (4 / 5)"
  using assms by (simp add: base_prob_def dict_get_def)

text \<open>The amended C4 on a request that lists the three features in another order.\<close>

theorem base_prob_all_ones_witness:
  "base_prob [(''comeback_probability'', JNum (PFloat 1)), (''win_rate'', JNum (PFloat 1)),
              (''tempo_score'', JNum (PFloat 1))] = Inr (4 / 5)"
  using base_prob_all_ones [of "[(''comeback_probability'', JNum (PFloat 1)), (''win_rate'', JNum (PFloat 1)),
              (''tempo_score'', JNum (PFloat 1))]"]
  by simp

section \<open>Properties of the retrieval\<close>

subsection \<open>The loop that builds the results\<close>

lemma attach_result_fst: "fst (attach_result i sim m h) = next_free h"
  by (simp add: attach_result_def copy_dict_def Let_def)

lemma attach_result_next: "next_free (snd (attach_result i sim m h)) = Suc (next_free h)"
  by (simp add: attach_result_def copy_dict_def set_item_def Let_def)

lemma attach_result_frame:
  "a \<noteq> next_free h \<Longrightarrow> store (snd (attach_result i sim m h)) a = store h a"
  by (simp add: attach_result_def copy_dict_def set_item_def Let_def)

lemma attach_result_new:
  "store (snd (attach_result i sim m h)) (next_free h) =
     dict_set (dict_set (store h m) ''similarity'' (JNum (py_round3 sim))) ''rank'' (JNum (PInt (int i + 1)))"
  by (simp add: attach_result_def copy_dict_def set_item_def Let_def)

lemma attach_loop_Cons:
  "attach_loop i (x # rest) h rs =
     attach_loop (Suc i) rest (snd (attach_result i (fst x) (snd x) h)) (rs @ [next_free h])"
  by (cases x) (simp add: case_prod_beta attach_result_fst)

lemma upt_head: "[n..<Suc (n + k)] = n # [Suc n..<Suc (n + k)]"
  by (rule upt_conv_Cons) simp

lemma attach_loop_fst:
  "fst (attach_loop i xs h rs) = rs @ [next_free h ..< next_free h + length xs]"
proof (induction xs arbitrary: i h rs)
  case Nil
  then show ?case by simp
next
  case (Cons x xs)
  show ?case
    by (simp add: attach_loop_Cons Cons.IH attach_result_next upt_head del: attach_loop.simps(2) upt_Suc)
qed

lemma attach_loop_next:
  "next_free (snd (attach_loop i xs h rs)) = next_free h + length xs"
  by (induction xs arbitrary: i h rs)
     (simp_all add: attach_loop_Cons attach_result_next del: attach_loop.simps(2))

lemma attach_loop_frame:
  "a < next_free h \<Longrightarrow> store (snd (attach_loop i xs h rs)) a = store h a"
proof (induction xs arbitrary: i h rs)
  case Nil
  then show ?case by simp
next
  case (Cons x xs)
  have "store (snd (attach_loop (Suc i) xs (snd (attach_result i (fst x) (snd x) h)) (rs @ [next_free h]))) a
      = store (snd (attach_result i (fst x) (snd x) h)) a"
    using Cons.prems by (intro Cons.IH) (simp add: attach_result_next)
  also have "\<dots> = store h a"
    using Cons.prems by (simp add: attach_result_frame)
  finally show ?case by (simp add: attach_loop_Cons del: attach_loop.simps(2))
qed

lemma attach_loop_new:
  assumes "j < length xs" and "\<forall>x \<in> set xs. snd x < next_free h"
  shows "store (snd (attach_loop i xs h rs)) (next_free h + j) =
     dict_set (dict_set (store h (snd (xs ! j))) ''similarity'' (JNum (py_round3 (fst (xs ! j)))))
       ''rank'' (JNum (PInt (int (i + j) + 1)))"
  using assms
proof (induction xs arbitrary: i h rs j)
  case Nil
  then show ?case by simp
next
  case (Cons x xs)
  let ?h1 = "snd (attach_result i (fst x) (snd x) h)"
  have n1: "next_free ?h1 = Suc (next_free h)" by (simp add: attach_result_next)
  show ?case
  proof (cases j)
    case 0
    have "store (snd (attach_loop (Suc i) xs ?h1 (rs @ [next_free h]))) (next_free h) = store ?h1 (next_free h)"
      by (rule attach_loop_frame) (simp add: n1)
    then show ?thesis
      using 0 by (simp add: attach_loop_Cons attach_result_new del: attach_loop.simps(2))
  next
    case (Suc k)
    have k: "k < length xs" using Cons.prems(1) Suc by simp
    have wf: "\<forall>y \<in> set xs. snd y < next_free ?h1"
      using Cons.prems(2) n1 by auto
    have same: "store ?h1 (snd (xs ! k)) = store h (snd (xs ! k))"
      using Cons.prems(2) k by (intro attach_result_frame) (metis less_irrefl list.set_intros(2) nth_mem)
    have "store (snd (attach_loop (Suc i) xs ?h1 (rs @ [next_free h]))) (next_free ?h1 + k) =
       dict_set (dict_set (store ?h1 (snd (xs ! k))) ''similarity'' (JNum (py_round3 (fst (xs ! k)))))
         ''rank'' (JNum (PInt (int (Suc i + k) + 1)))"
      by (rule Cons.IH [OF k wf])
    then show ?thesis
      using Suc same by (simp add: attach_loop_Cons n1 del: attach_loop.simps(2))
  qed
qed

lemma attach_loop_fields:
  assumes "j < length xs"
  shows "map_of (store (snd (attach_loop i xs h rs)) (next_free h + j)) ''similarity'' = Some (JNum (py_round3 (fst (xs ! j))))
       \<and> map_of (store (snd (attach_loop i xs h rs)) (next_free h + j)) ''rank'' = Some (JNum (PInt (int (i + j) + 1)))"
  using assms
proof (induction xs arbitrary: i h rs j)
  case Nil
  then show ?case by simp
next
  case (Cons x xs)
  let ?h1 = "snd (attach_result i (fst x) (snd x) h)"
  have n1: "next_free ?h1 = Suc (next_free h)" by (simp add: attach_result_next)
  show ?case
  proof (cases j)
    case 0
    have "store (snd (attach_loop (Suc i) xs ?h1 (rs @ [next_free h]))) (next_free h) = store ?h1 (next_free h)"
      by (rule attach_loop_frame) (simp add: n1)
    then show ?thesis
      using 0 by (simp add: attach_loop_Cons attach_result_new dict_set_def update_conv del: attach_loop.simps(2))
  next
    case (Suc k)
    have k: "k < length xs" using Cons.prems(1) Suc by simp
    show ?thesis
      using Cons.IH [OF k, of "Suc i" ?h1 "rs @ [next_free h]"] Suc
      by (simp add: attach_loop_Cons n1 del: attach_loop.simps(2))
  qed
qed

subsection \<open>Rounding, the cosine and the word counts\<close>

lemma round_half_even_bounds: "\<lfloor>y\<rfloor> \<le> round_half_even y \<and> round_half_even y \<le> \<lfloor>y\<rfloor> + 1"
  by (simp add: round_half_even_def Let_def)

lemma round_half_even_mono:
  assumes "x \<le> y"
  shows "round_half_even x \<le> round_half_even y"
proof (cases "\<lfloor>x\<rfloor> = \<lfloor>y\<rfloor>")
  case True
  then show ?thesis
    using assms by (simp add: round_half_even_def Let_def)
next
  case False
  then have "\<lfloor>x\<rfloor> + 1 \<le> \<lfloor>y\<rfloor>"
    using floor_mono [OF assms] by linarith
  then show ?thesis
    using round_half_even_bounds [of x] round_half_even_bounds [of y] by linarith
qed

lemma round_half_even_of_int: "round_half_even (of_int i) = i"
  by (simp add: round_half_even_def Let_def)

lemma round3_mono: "x \<le> y \<Longrightarrow> round3 x \<le> round3 y"
  by (simp add: round3_def round_half_even_mono divide_right_mono)

lemma round3_of_int: "round3 (of_int i) = of_int i"
proof -
  have "round_half_even (of_int i * 1000) = i * 1000"
    using round_half_even_of_int [of "i * 1000"] by simp
  then show ?thesis by (simp add: round3_def)
qed

lemma num_val_round3: "num_val (py_round3 n) = round3 (num_val n)"
  by (cases n) (simp_all add: round3_of_int)

lemma round3_unit: "0 \<le> x \<Longrightarrow> x \<le> 1 \<Longrightarrow> 0 \<le> round3 x \<and> round3 x \<le> 1"
  using round3_mono [of 0 x] round3_mono [of x 1] round3_of_int [of 0] round3_of_int [of 1]
  by simp


lemma lagrange_two:
  fixes P Q u v :: real
  shows "(P * Q + u * v)\<^sup>2 \<le> (P\<^sup>2 + u\<^sup>2) * (Q\<^sup>2 + v\<^sup>2)"
proof -
  have "(P\<^sup>2 + u\<^sup>2) * (Q\<^sup>2 + v\<^sup>2) - (P * Q + u * v)\<^sup>2 = (P * v - u * Q)\<^sup>2"
    by (simp add: power2_eq_square algebra_simps)
  moreover have "0 \<le> (P * v - u * Q)\<^sup>2" by simp
  ultimately show ?thesis by linarith
qed

lemma two_dim_bound:
  fixes p q r s :: real
  assumes "0 \<le> r" "0 \<le> s"
  shows "\<bar>p * q\<bar> + sqrt r * sqrt s \<le> sqrt (p * p + r) * sqrt (q * q + s)"
proof -
  have "(\<bar>p\<bar> * \<bar>q\<bar> + sqrt r * sqrt s)\<^sup>2 \<le> (\<bar>p\<bar>\<^sup>2 + (sqrt r)\<^sup>2) * (\<bar>q\<bar>\<^sup>2 + (sqrt s)\<^sup>2)"
    by (rule lagrange_two)
  also have "\<dots> = (p * p + r) * (q * q + s)"
    using assms by (simp add: power2_eq_square)
  finally have "\<bar>p\<bar> * \<bar>q\<bar> + sqrt r * sqrt s \<le> sqrt ((p * p + r) * (q * q + s))"
    by (rule real_le_rsqrt)
  then show ?thesis by (simp add: real_sqrt_mult abs_mult)
qed

lemma sum_squares_nonneg: "0 \<le> sum_list (map (\<lambda>x. x * x) (a :: int list))"
  by (rule sum_list_nonneg) auto

lemma dot_le_norms:
  fixes a b :: "int list"
  shows "\<bar>real_of_int (sum_list (map (\<lambda>(x, y). x * y) (zip a b)))\<bar>
     \<le> sqrt (of_int (sum_list (map (\<lambda>x. x * x) a))) * sqrt (of_int (sum_list (map (\<lambda>x. x * x) b)))"
proof (induction a arbitrary: b)
  case Nil
  then show ?case by simp
next
  case (Cons x xs)
  show ?case
  proof (cases b)
    case Nil
    then show ?thesis by simp
  next
    case (Cons y ys)
    let ?D = "real_of_int (sum_list (map (\<lambda>(x, y). x * y) (zip xs ys)))"
    let ?A = "real_of_int (sum_list (map (\<lambda>x. x * x) xs))"
    let ?B = "real_of_int (sum_list (map (\<lambda>x. x * x) ys))"
    have A: "0 \<le> ?A" and B: "0 \<le> ?B" using sum_squares_nonneg by simp_all
    have "\<bar>real_of_int x * real_of_int y + ?D\<bar> \<le> \<bar>real_of_int x * real_of_int y\<bar> + \<bar>?D\<bar>"
      by (rule abs_triangle_ineq)
    also have "\<dots> \<le> \<bar>real_of_int x * real_of_int y\<bar> + sqrt ?A * sqrt ?B"
      using Cons.IH [of ys] by simp
    also have "\<dots> \<le> sqrt (real_of_int x * real_of_int x + ?A) * sqrt (real_of_int y * real_of_int y + ?B)"
      by (rule two_dim_bound [OF A B])
    finally show ?thesis using Cons by simp
  qed
qed

lemma dot_nonneg:
  fixes a b :: "int list"
  assumes "\<forall>x \<in> set a. 0 \<le> x" and "\<forall>y \<in> set b. 0 \<le> y"
  shows "0 \<le> sum_list (map (\<lambda>(x, y). x * y) (zip a b))"
proof (rule sum_list_nonneg)
  fix z assume "z \<in> set (map (\<lambda>(x, y). x * y) (zip a b))"
  then obtain x y where "(x, y) \<in> set (zip a b)" and z: "z = x * y" by auto
  then have "x \<in> set a" "y \<in> set b" by (auto dest: set_zip_leftD set_zip_rightD)
  with assms z show "0 \<le> z" by simp
qed

lemma cosine_range:
  assumes "\<forall>x \<in> set a. 0 \<le> x" and "\<forall>y \<in> set b. 0 \<le> y"
  shows "0 \<le> num_val (cosine_similarity a b) \<and> num_val (cosine_similarity a b) \<le> 1"
proof -
  let ?dot = "real_of_int (sum_list (map (\<lambda>(x, y). x * y) (zip a b)))"
  let ?n = "sqrt (of_int (sum_list (map (\<lambda>x. x * x) a))) * sqrt (of_int (sum_list (map (\<lambda>x. x * x) b)))"
  show ?thesis
  proof (cases "?n > 0")
    case True
    have "0 \<le> ?dot" using dot_nonneg [OF assms] by simp
    moreover have "?dot \<le> ?n" using dot_le_norms [of a b] by linarith
    ultimately have "0 \<le> ?dot / ?n \<and> ?dot / ?n \<le> 1"
      using True by (simp add: divide_le_eq)
    then show ?thesis using True by (simp add: cosine_similarity_def Let_def)
  next
    case False
    then show ?thesis by (simp add: cosine_similarity_def Let_def)
  qed
qed

lemma cosine_zero_norm:
  "sqrt (of_int (sum_list (map (\<lambda>x. x * x) a))) = 0 \<or> sqrt (of_int (sum_list (map (\<lambda>x. x * x) b))) = 0
   \<Longrightarrow> cosine_similarity a b = PInt 0"
  by (auto simp add: cosine_similarity_def Let_def)


lemma update_set_subset: "set (AList.update k v al) \<subseteq> insert (k, v) (set al)"
  by (induction al) auto

lemma count_words_nonneg:
  "\<forall>p \<in> set wc. 0 \<le> snd p \<Longrightarrow> \<forall>p \<in> set (count_words ws wc). 0 \<le> snd p"
proof (induction ws arbitrary: wc)
  case Nil
  then show ?case by simp
next
  case (Cons w ws)
  let ?v = "(case map_of wc w of Some n \<Rightarrow> n | None \<Rightarrow> 0) + 1"
  have "0 \<le> ?v"
    using Cons.prems by (auto split: option.splits dest!: map_of_SomeD)
  moreover have "set (AList.update w ?v wc) \<subseteq> insert (w, ?v) (set wc)"
    by (rule update_set_subset)
  ultimately have "\<forall>p \<in> set (AList.update w ?v wc). 0 \<le> snd p"
    using Cons.prems by auto
  then show ?case using Cons.IH by simp
qed

lemma text_to_vector_nonneg: "\<forall>x \<in> set (text_to_vector t). 0 \<le> x"
  using count_words_nonneg [of "[]" "split_ws [] (py_lower t)"] by (auto simp add: text_to_vector_def)

lemma match_similarity_range:
  "0 \<le> num_val (match_similarity fmt (text_to_vector q) d) \<and> num_val (match_similarity fmt (text_to_vector q) d) \<le> 1"
  using cosine_range [OF text_to_vector_nonneg text_to_vector_nonneg]
  by (simp add: match_similarity_def Let_def)

subsection \<open>Slices and the stable sort\<close>

lemma py_slice_to_map: "py_slice_to k (map F xs) = map F (py_slice_to k xs)"
  by (simp add: py_slice_to_def take_map)

lemma length_py_slice_to_nonneg: "0 \<le> k \<Longrightarrow> length (py_slice_to k xs) = min (nat k) (length xs)"
  by (simp add: py_slice_to_def min.commute)

lemma length_py_slice_to_neg:
  "k < 0 \<Longrightarrow> - k \<le> int (length xs) \<Longrightarrow> length (py_slice_to k xs) = nat (int (length xs) + k)"
  by (simp add: py_slice_to_def)

lemma length_py_slice_to_cong: "length xs = length ys \<Longrightarrow> length (py_slice_to k xs) = length (py_slice_to k ys)"
  by (simp add: py_slice_to_def)

lemma set_py_slice_to: "set (py_slice_to k xs) \<subseteq> set xs"
  by (auto simp add: py_slice_to_def dest: in_set_takeD)

lemma sorted_wrt_py_slice_to: "sorted_wrt R xs \<Longrightarrow> sorted_wrt R (py_slice_to k xs)"
proof -
  have "sorted_wrt R (take m xs)" if "sorted_wrt R xs" for m
    using that sorted_wrt_append [of R "take m xs" "drop m xs"] by simp
  then show "sorted_wrt R xs \<Longrightarrow> sorted_wrt R (py_slice_to k xs)"
    by (simp add: py_slice_to_def)
qed


lemma insort_key_map: "insort_key f (g x) (map g ys) = map g (insort_key (\<lambda>y. f (g y)) x ys)"
  by (induction ys) simp_all

lemma sort_key_map: "sort_key f (map g xs) = map g (sort_key (\<lambda>y. f (g y)) xs)"
  by (induction xs) (simp_all add: insort_key_map)

lemma insort_key_stable_order:
  fixes f :: "'a::linorder \<Rightarrow> 'b::linorder"
  assumes "sorted_wrt (\<lambda>p q. f p < f q \<or> (f p = f q \<and> p < q)) ys" and "\<forall>y \<in> set ys. x < y"
  shows "sorted_wrt (\<lambda>p q. f p < f q \<or> (f p = f q \<and> p < q)) (insort_key f x ys)"
  using assms
proof (induction ys)
  case Nil
  then show ?case by simp
next
  case (Cons y ys)
  show ?case
  proof (cases "f x \<le> f y")
    case True
    have "f x < f z \<or> (f x = f z \<and> x < z)" if "z \<in> set (y # ys)" for z
    proof -
      have "f y \<le> f z" using that Cons.prems(1) by auto
      then have "f x \<le> f z" using True by simp
      moreover have "x < z" using that Cons.prems(2) by auto
      ultimately show ?thesis by auto
    qed
    then show ?thesis using True Cons.prems(1) by simp
  next
    case False
    have "sorted_wrt (\<lambda>p q. f p < f q \<or> (f p = f q \<and> p < q)) (insort_key f x ys)"
      using Cons by simp
    moreover have "f y < f z \<or> (f y = f z \<and> y < z)" if "z \<in> set (insort_key f x ys)" for z
      using that False Cons.prems(1) by (auto simp add: set_insort_key)
    ultimately show ?thesis using False by simp
  qed
qed

lemma sort_key_stable_order:
  fixes f :: "'a::linorder \<Rightarrow> 'b::linorder"
  assumes "sorted_wrt (<) xs"
  shows "sorted_wrt (\<lambda>p q. f p < f q \<or> (f p = f q \<and> p < q)) (sort_key f xs)"
  using assms
proof (induction xs)
  case Nil
  then show ?case by simp
next
  case (Cons x xs)
  then show ?case by (simp add: insort_key_stable_order)
qed


lemma scored_by_positions:
  "sort_key (\<lambda>x. - num_val (fst x)) (map (\<lambda>match. (sim (store h match), match)) history) =
     map (\<lambda>p. (sim (store h (history ! p)), history ! p))
       (sort_key (\<lambda>p. - num_val (sim (store h (history ! p)))) [0..<length history])"
proof -
  let ?g = "\<lambda>a. (sim (store h a), a)"
  have "map ?g history = map ?g (map (\<lambda>p. history ! p) [0..<length history])"
    by (simp add: map_nth)
  also have "\<dots> = map (\<lambda>p. ?g (history ! p)) [0..<length history]"
    by simp
  finally show ?thesis
    by (simp add: sort_key_map)
qed

text \<open>The exact cosine is one of the similarities that \<open>find_similar_matches_by\<close>
  ranges over.\<close>

lemma find_similar_matches_by_exact:
  "find_similar_matches fmt query history top_k h =
     find_similar_matches_by (match_similarity fmt (text_to_vector query)) history top_k h"
  by (simp add: find_similar_matches_def find_similar_matches_by_def score_history_def Let_def)

lemma find_results:
  "fst (find_similar_matches fmt query history top_k h) =
     [next_free h ..< next_free h + length (py_slice_to top_k history)]"
proof -
  have "length (sort_key (\<lambda>x. - num_val (fst x)) (score_history fmt query history h)) = length history"
    by (simp add: score_history_def Let_def)
  then have "length (py_slice_to top_k (sort_key (\<lambda>x. - num_val (fst x)) (score_history fmt query history h)))
      = length (py_slice_to top_k history)"
    by (rule length_py_slice_to_cong)
  then show ?thesis
    by (simp add: find_similar_matches_def Let_def attach_loop_fst)
qed

lemma attached_similarity_range:
  assumes "r \<in> set (fst (find_similar_matches fmt query history top_k h))"
  shows "\<exists>v. map_of (store (snd (find_similar_matches fmt query history top_k h)) r) ''similarity'' = Some (JNum v)
             \<and> 0 \<le> num_val v \<and> num_val v \<le> 1"
proof -
  let ?xs = "py_slice_to top_k (sort_key (\<lambda>x. - num_val (fst x)) (score_history fmt query history h))"
  have res: "fst (find_similar_matches fmt query history top_k h) = [next_free h ..< next_free h + length ?xs]"
    by (simp add: find_similar_matches_def Let_def attach_loop_fst)
  define j where "j = r - next_free h"
  have j: "j < length ?xs" and r: "r = next_free h + j"
    using assms res by (auto simp add: j_def)
  have "?xs ! j \<in> set ?xs"
    using j by (rule nth_mem)
  then have "?xs ! j \<in> set (sort_key (\<lambda>x. - num_val (fst x)) (score_history fmt query history h))"
    by (rule subsetD [OF set_py_slice_to])
  then have "?xs ! j \<in> set (score_history fmt query history h)"
    by (simp only: set_sort)
  then have "?xs ! j \<in> (\<lambda>a. (match_similarity fmt (text_to_vector query) (store h a), a)) ` set history"
    by (simp only: score_history_def Let_def set_map)
  then obtain a where "?xs ! j = (match_similarity fmt (text_to_vector query) (store h a), a)"
    by (rule imageE)
  then have fa: "fst (?xs ! j) = match_similarity fmt (text_to_vector query) (store h a)"
    by (simp only: fst_conv)
  have "0 \<le> round3 (num_val (fst (?xs ! j))) \<and> round3 (num_val (fst (?xs ! j))) \<le> 1"
    unfolding fa using match_similarity_range [of fmt query "store h a"] by (intro round3_unit) simp_all
  then have "0 \<le> num_val (py_round3 (fst (?xs ! j))) \<and> num_val (py_round3 (fst (?xs ! j))) \<le> 1"
    by (simp only: num_val_round3)
  moreover have "map_of (store (snd (find_similar_matches fmt query history top_k h)) r) ''similarity''
      = Some (JNum (py_round3 (fst (?xs ! j))))"
    using attach_loop_fields [OF j, of 0 h "[]"] unfolding r find_similar_matches_def Let_def by (rule conjunct1)
  ultimately show ?thesis by blast
qed

subsection \<open>The sample corpus\<close>

lemma sqrt_25: "sqrt 25 = 5"
  by (rule real_sqrt_unique) simp_all

lemma sample_query_vector: "text_to_vector ''C9'' = [1]"
  by code_simp

lemma sample_vectors:
  "text_to_vector (match_text (\<lambda>v. []) (SAMPLE_HISTORY ! 0)) = [3, 4]
   \<and> text_to_vector (match_text (\<lambda>v. []) (SAMPLE_HISTORY ! 1)) = [4, 3]
   \<and> text_to_vector (match_text (\<lambda>v. []) (SAMPLE_HISTORY ! 2)) = [4, 3]"
  by code_simp

lemma sample_similarities:
  "sample_sim (SAMPLE_HISTORY ! 0) = PFloat (3 / 5)
   \<and> sample_sim (SAMPLE_HISTORY ! 1) = PFloat (4 / 5)
   \<and> sample_sim (SAMPLE_HISTORY ! 2) = PFloat (4 / 5)"
  by (simp only: sample_sim_def match_similarity_def Let_def sample_query_vector sample_vectors)
     (simp add: cosine_similarity_def sqrt_25)

lemma round3_sample: "round3 (3 / 5) = 3 / 5 \<and> round3 (4 / 5) = 4 / 5"
  by (simp add: round3_def round_half_even_def)

lemma sample_stores:
  "store sample_heap 0 = SAMPLE_HISTORY ! 0 \<and> store sample_heap 1 = SAMPLE_HISTORY ! 1
   \<and> store sample_heap 2 = SAMPLE_HISTORY ! 2"
  by (simp add: sample_heap_def)

lemma sample_scored:
  "sample_run =
     attach_loop 0 [(PFloat (4 / 5), 1), (PFloat (4 / 5), 2), (PFloat (3 / 5), 0)] sample_heap []"
  by (simp only: sample_run_def find_similar_matches_by_def Let_def list.map sample_stores sample_similarities)
     (simp add: py_slice_to_def)

subsection \<open>The claims on \<^verbatim>\<open>find_similar_matches\<close>\<close>

text \<open>
  C6: for every query, corpus and \<open>top_k \<ge> 0\<close>, \<^verbatim>\<open>find_similar_matches\<close> returns
  exactly \<open>min top_k |corpus|\<close> results; with \<open>top_k\<close> above the size of the corpus it
  returns one result per record. The function has no failing path: it is total.
\<close>

theorem retrieve_length:
  "0 \<le> top_k \<Longrightarrow>
   length (fst (find_similar_matches fmt query history top_k h)) = min (nat top_k) (length history)"
  by (simp add: find_results length_py_slice_to_nonneg)

text \<open>C6 on the built-in corpus of three records with \<open>top_k = 5\<close>: three results.\<close>

theorem retrieve_length_witness:
  "(0::int) \<le> 5 \<and>
   length (fst (find_similar_matches (\<lambda>v. []) ''C9 win T1'' [0, 1, 2] 5 mock_heap)) = 3"
  using retrieve_length [of 5 "\<lambda>v. []" "''C9 win T1''" "[0, 1, 2]" mock_heap] by simp

text \<open>
  C7: the similarity of a record is the number that the first loop computes for it and
  that the sort reads, before it is rounded. The statement holds whatever this number is
  (\<open>sim\<close>), so it holds for the floats of the code as it does for the exact cosine. With
  every record of the corpus an object that exists before the call, the results are
  copies of the records at distinct positions \<open>ps\<close> of the corpus, the \<open>j\<close>-th result
  with the rounded similarity attached and the rank \<open>j + 1\<close>; along the results
  neither the similarity nor the attached, rounded similarity increases; and of two
  results with the same similarity the one that comes first in the corpus comes first
  (the sort is stable). Two results may carry the same rounded similarity while their
  similarities differ: these come with the larger similarity first, wherever they are
  in the corpus.
\<close>

theorem retrieve_order:
  assumes wf: "\<forall>a \<in> set history. a < next_free h"
    and run: "find_similar_matches_by sim history top_k h = (results, h')"
  shows "\<exists>ps. length ps = length results \<and> distinct ps \<and>
      (\<forall>j < length results. ps ! j < length history \<and>
         store h' (results ! j) =
           dict_set (dict_set (store h (history ! (ps ! j))) ''similarity''
               (JNum (py_round3 (sim (store h (history ! (ps ! j)))))))
             ''rank'' (JNum (PInt (int j + 1)))) \<and>
      (\<forall>i j. i < j \<and> j < length results \<longrightarrow>
         num_val (sim (store h (history ! (ps ! j)))) \<le> num_val (sim (store h (history ! (ps ! i)))) \<and>
         num_val (py_round3 (sim (store h (history ! (ps ! j)))))
           \<le> num_val (py_round3 (sim (store h (history ! (ps ! i))))) \<and>
         (num_val (sim (store h (history ! (ps ! i)))) = num_val (sim (store h (history ! (ps ! j))))
          \<longrightarrow> ps ! i < ps ! j))"
proof -
  let ?sim = "\<lambda>p. sim (store h (history ! p))"
  let ?K = "\<lambda>p. - num_val (?sim p)"
  let ?ps = "py_slice_to top_k (sort_key ?K [0..<length history])"
  let ?g = "\<lambda>p. (?sim p, history ! p)"
  have sliced: "py_slice_to top_k (sort_key (\<lambda>x. - num_val (fst x))
        (map (\<lambda>match. (sim (store h match), match)) history)) = map ?g ?ps"
    by (simp only: scored_by_positions py_slice_to_map)
  have run': "attach_loop 0 (map ?g ?ps) h [] = (results, h')"
    using run unfolding find_similar_matches_by_def Let_def sliced .
  have results: "results = [next_free h..<next_free h + length ?ps]"
    using attach_loop_fst [of 0 "map ?g ?ps" h "[]"] run' by simp
  have h': "h' = snd (attach_loop 0 (map ?g ?ps) h [])"
    using run' by simp
  have len: "length ?ps = length results"
    using results by simp
  have inrange: "p < length history" if "p \<in> set ?ps" for p
  proof -
    have "p \<in> set (sort_key ?K [0..<length history])"
      using that by (rule subsetD [OF set_py_slice_to])
    then show ?thesis by simp
  qed
  have wf': "\<forall>x \<in> set (map ?g ?ps). snd x < next_free h"
    using wf inrange by auto
  have rec: "ps_j < length history \<and> store h' (results ! j) =
           dict_set (dict_set (store h (history ! ps_j)) ''similarity'' (JNum (py_round3 (?sim ps_j))))
             ''rank'' (JNum (PInt (int j + 1)))"
    if j: "j < length results" and ps_j: "ps_j = ?ps ! j" for j ps_j
  proof -
    have j': "j < length (map ?g ?ps)" using j len by simp
    have "store h' (next_free h + j) =
        dict_set (dict_set (store h (snd (map ?g ?ps ! j))) ''similarity'' (JNum (py_round3 (fst (map ?g ?ps ! j)))))
          ''rank'' (JNum (PInt (int (0 + j) + 1)))"
      unfolding h' by (rule attach_loop_new [OF j' wf'])
    moreover have "map ?g ?ps ! j = ?g ps_j" using j len ps_j by simp
    moreover have "results ! j = next_free h + j" using j results by simp
    moreover have "ps_j < length history" using j len ps_j inrange by simp
    ultimately show ?thesis by simp
  qed
  have sorted: "sorted_wrt (\<lambda>p q. ?K p < ?K q \<or> (?K p = ?K q \<and> p < q)) ?ps"
    by (intro sorted_wrt_py_slice_to sort_key_stable_order) simp
  have ord: "num_val (?sim q) \<le> num_val (?sim p) \<and> num_val (py_round3 (?sim q)) \<le> num_val (py_round3 (?sim p))
        \<and> (num_val (?sim p) = num_val (?sim q) \<longrightarrow> p < q)"
    if "i < j" "j < length results" "p = ?ps ! i" "q = ?ps ! j" for i j p q
  proof -
    have "?K p < ?K q \<or> (?K p = ?K q \<and> p < q)"
      using sorted_wrt_nth_less [OF sorted, of i j] that len by simp
    then have le: "num_val (?sim q) \<le> num_val (?sim p)"
      and st: "num_val (?sim p) = num_val (?sim q) \<longrightarrow> p < q"
      by auto
    from le have "round3 (num_val (?sim q)) \<le> round3 (num_val (?sim p))"
      by (rule round3_mono)
    then show ?thesis using le st by (simp only: num_val_round3)
  qed
  have "distinct (sort_key ?K [0..<length history])"
    by (simp only: distinct_sort distinct_upt)
  then have dist: "distinct ?ps"
    by (simp add: py_slice_to_def)
  have fields: "\<forall>j < length results. ?ps ! j < length history \<and> store h' (results ! j) =
           dict_set (dict_set (store h (history ! (?ps ! j))) ''similarity'' (JNum (py_round3 (?sim (?ps ! j)))))
             ''rank'' (JNum (PInt (int j + 1)))"
    using rec by blast
  have order: "\<forall>i j. i < j \<and> j < length results \<longrightarrow>
         num_val (?sim (?ps ! j)) \<le> num_val (?sim (?ps ! i)) \<and>
         num_val (py_round3 (?sim (?ps ! j))) \<le> num_val (py_round3 (?sim (?ps ! i))) \<and>
         (num_val (?sim (?ps ! i)) = num_val (?sim (?ps ! j)) \<longrightarrow> ?ps ! i < ?ps ! j)"
    using ord by blast
  show ?thesis
    by (rule exI [of _ ?ps]) (intro conjI len dist fields order)
qed

text \<open>
  C7 on the corpus \<open>SAMPLE_HISTORY\<close> with the query \<^verbatim>\<open>"C9"\<close> and \<open>top_k = 3\<close>: the
  similarities are 0.6, 0.8 and 0.8, and the results are the second record, the third
  and the first, with the ranks 1, 2 and 3.
\<close>

theorem retrieve_order_witness:
  "next_free sample_heap = 3 \<and>
   (\<exists>ps. length ps = length (fst sample_run) \<and> distinct ps \<and>
      (\<forall>j < length (fst sample_run). ps ! j < length [0::nat, 1, 2] \<and>
         store (snd sample_run) (fst sample_run ! j) =
           dict_set (dict_set (store sample_heap ([0, 1, 2] ! (ps ! j))) ''similarity''
               (JNum (py_round3 (sample_sim (store sample_heap ([0, 1, 2] ! (ps ! j)))))))
             ''rank'' (JNum (PInt (int j + 1)))) \<and>
      (\<forall>i j. i < j \<and> j < length (fst sample_run) \<longrightarrow>
         num_val (sample_sim (store sample_heap ([0, 1, 2] ! (ps ! j))))
           \<le> num_val (sample_sim (store sample_heap ([0, 1, 2] ! (ps ! i)))) \<and>
         num_val (py_round3 (sample_sim (store sample_heap ([0, 1, 2] ! (ps ! j)))))
           \<le> num_val (py_round3 (sample_sim (store sample_heap ([0, 1, 2] ! (ps ! i))))) \<and>
         (num_val (sample_sim (store sample_heap ([0, 1, 2] ! (ps ! i))))
            = num_val (sample_sim (store sample_heap ([0, 1, 2] ! (ps ! j))))
          \<longrightarrow> ps ! i < ps ! j))) \<and>
   fst sample_run = [3, 4, 5] \<and>
   store (snd sample_run) 3 =
     dict_set (dict_set (SAMPLE_HISTORY ! 1) ''similarity'' (JNum (PFloat (4 / 5)))) ''rank'' (JNum (PInt 1)) \<and>
   store (snd sample_run) 4 =
     dict_set (dict_set (SAMPLE_HISTORY ! 2) ''similarity'' (JNum (PFloat (4 / 5)))) ''rank'' (JNum (PInt 2)) \<and>
   store (snd sample_run) 5 =
     dict_set (dict_set (SAMPLE_HISTORY ! 0) ''similarity'' (JNum (PFloat (3 / 5)))) ''rank'' (JNum (PInt 3))"
proof -
  have nf: "next_free sample_heap = 3"
    by (simp add: sample_heap_def)
  have wf: "\<forall>a \<in> set [0, 1, 2]. a < next_free sample_heap"
    by (simp add: sample_heap_def)
  have run: "find_similar_matches_by sample_sim [0, 1, 2] 3 sample_heap = (fst sample_run, snd sample_run)"
    by (simp add: sample_run_def)
  have ex: "(\<exists>ps. length ps = length (fst sample_run) \<and> distinct ps \<and>
      (\<forall>j < length (fst sample_run). ps ! j < length [0::nat, 1, 2] \<and>
         store (snd sample_run) (fst sample_run ! j) =
           dict_set (dict_set (store sample_heap ([0, 1, 2] ! (ps ! j))) ''similarity''
               (JNum (py_round3 (sample_sim (store sample_heap ([0, 1, 2] ! (ps ! j)))))))
             ''rank'' (JNum (PInt (int j + 1)))) \<and>
      (\<forall>i j. i < j \<and> j < length (fst sample_run) \<longrightarrow>
         num_val (sample_sim (store sample_heap ([0, 1, 2] ! (ps ! j))))
           \<le> num_val (sample_sim (store sample_heap ([0, 1, 2] ! (ps ! i)))) \<and>
         num_val (py_round3 (sample_sim (store sample_heap ([0, 1, 2] ! (ps ! j)))))
           \<le> num_val (py_round3 (sample_sim (store sample_heap ([0, 1, 2] ! (ps ! i))))) \<and>
         (num_val (sample_sim (store sample_heap ([0, 1, 2] ! (ps ! i))))
            = num_val (sample_sim (store sample_heap ([0, 1, 2] ! (ps ! j))))
          \<longrightarrow> ps ! i < ps ! j)))"
    by (rule retrieve_order [OF wf run])
  have res: "fst sample_run = [3, 4, 5]"
    by (simp add: sample_scored sample_heap_def attach_result_def copy_dict_def set_item_def)
  have r1: "store (snd sample_run) 3 =
     dict_set (dict_set (SAMPLE_HISTORY ! 1) ''similarity'' (JNum (PFloat (4 / 5)))) ''rank'' (JNum (PInt 1))"
    by (simp add: sample_scored sample_heap_def attach_result_def copy_dict_def set_item_def round3_sample)
  have r2: "store (snd sample_run) 4 =
     dict_set (dict_set (SAMPLE_HISTORY ! 2) ''similarity'' (JNum (PFloat (4 / 5)))) ''rank'' (JNum (PInt 2))"
    by (simp add: sample_scored sample_heap_def attach_result_def copy_dict_def set_item_def round3_sample)
  have r3: "store (snd sample_run) 5 =
     dict_set (dict_set (SAMPLE_HISTORY ! 0) ''similarity'' (JNum (PFloat (3 / 5)))) ''rank'' (JNum (PInt 3))"
    by (simp add: sample_scored sample_heap_def attach_result_def copy_dict_def set_item_def round3_sample)
  show ?thesis
    by (intro conjI nf ex res r1 r2 r3)
qed

text \<open>
  C8: the similarity attached to a result is a number in \<open>[0, 1]\<close> (in exact
  arithmetic); the entries of a bag-of-words vector are not negative; the cosine is the
  integer 0 when the norm of either vector is 0; and the dot product over the common
  positions is at most the product of the norms of the whole vectors.
\<close>

theorem retrieve_similarity_unit:
  assumes "r \<in> set (fst (find_similar_matches fmt query history top_k h))"
  shows "(\<exists>v. map_of (store (snd (find_similar_matches fmt query history top_k h)) r) ''similarity'' = Some (JNum v)
             \<and> 0 \<le> num_val v \<and> num_val v \<le> 1)
       \<and> (\<forall>x \<in> set (text_to_vector t). 0 \<le> x)
       \<and> (sqrt (of_int (sum_list (map (\<lambda>x. x * x) a))) = 0 \<or> sqrt (of_int (sum_list (map (\<lambda>x. x * x) b))) = 0
            \<longrightarrow> cosine_similarity a b = PInt 0)
       \<and> \<bar>real_of_int (sum_list (map (\<lambda>(x, y). x * y) (zip a b)))\<bar>
            \<le> sqrt (of_int (sum_list (map (\<lambda>x. x * x) a))) * sqrt (of_int (sum_list (map (\<lambda>x. x * x) b)))"
  using attached_similarity_range [OF assms] text_to_vector_nonneg [of t] cosine_zero_norm [of a b]
    dot_le_norms [of a b]
  by blast

text \<open>C8 on the built-in corpus: the first result, at the address 3, and the cosine of
  the empty vector.\<close>

theorem retrieve_similarity_unit_witness:
  "3 \<in> set (fst (find_similar_matches (\<lambda>v. []) ''C9 win T1'' [0, 1, 2] 2 mock_heap)) \<and>
   (\<exists>v. map_of (store (snd (find_similar_matches (\<lambda>v. []) ''C9 win T1'' [0, 1, 2] 2 mock_heap)) 3) ''similarity''
          = Some (JNum v) \<and> 0 \<le> num_val v \<and> num_val v \<le> 1) \<and>
   cosine_similarity [] [1] = PInt 0"
proof -
  have r: "3 \<in> set (fst (find_similar_matches (\<lambda>v. []) ''C9 win T1'' [0, 1, 2] 2 mock_heap))"
    by (simp add: find_results py_slice_to_def mock_heap_def)
  show ?thesis
    using r retrieve_similarity_unit [OF r, where a = "[]" and b = "[1]"] by simp
qed

text \<open>
  C9: \<^verbatim>\<open>find_similar_matches\<close> changes no object that exists before the call, so every
  record of the corpus is as it was; and no such object is among the results, which are
  new copies.
\<close>

theorem retrieve_frame:
  assumes "a < next_free h"
  shows "store (snd (find_similar_matches fmt query history top_k h)) a = store h a
       \<and> a \<notin> set (fst (find_similar_matches fmt query history top_k h))"
  using assms by (simp add: find_results) (simp add: find_similar_matches_def Let_def attach_loop_frame)

text \<open>C9 on the built-in corpus: the record at the address 1 is unchanged.\<close>

theorem retrieve_frame_witness:
  "1 < next_free mock_heap \<and>
   store (snd (find_similar_matches (\<lambda>v. []) ''C9 win T1'' [0, 1, 2] 2 mock_heap)) 1 = MOCK_HISTORY ! 1 \<and>
   1 \<notin> set (fst (find_similar_matches (\<lambda>v. []) ''C9 win T1'' [0, 1, 2] 2 mock_heap))"
proof -
  have a: "1 < next_free mock_heap" by (simp add: mock_heap_def)
  show ?thesis
    using a retrieve_frame [OF a, of "\<lambda>v. []" "''C9 win T1''" "[0, 1, 2]" 2]
    by (simp add: mock_heap_def)
qed

text \<open>
  C10: for a negative \<open>top_k\<close> with \<open>|top_k| \<le> |corpus|\<close>, the slice drops the last
  \<open>|top_k|\<close> candidates and \<^verbatim>\<open>find_similar_matches\<close> returns \<open>|corpus| + top_k\<close> results.
\<close>

theorem negative_top_k_length:
  "top_k < 0 \<Longrightarrow> - top_k \<le> int (length history) \<Longrightarrow>
   length (fst (find_similar_matches fmt query history top_k h)) = nat (int (length history) + top_k)"
  by (simp add: find_results length_py_slice_to_neg)

text \<open>C10 on the built-in corpus with \<open>top_k = -1\<close>: two results.\<close>

theorem negative_top_k_length_witness:
  "(- 1 :: int) < 0 \<and>
   length (fst (find_similar_matches (\<lambda>v. []) ''C9 win T1'' [0, 1, 2] (- 1) mock_heap)) = 2"
  using negative_top_k_length [of "- 1" "[0, 1, 2]" "\<lambda>v. []" "''C9 win T1''" mock_heap] by simp

end
